theory Spec2Isabelle
  imports Main
begin

section \<open>Go library functions the packages call\<close>

text \<open>
  A Go \<open>string\<close> is a sequence of bytes, here a \<open>char list\<close>. Every pattern and every
  separator of the two packages is ASCII, so a byte of a multi-byte UTF-8 sequence is
  matched by none of them and the byte-wise reading below agrees with Go's rune-wise one.
\<close>

subsection \<open>Package regexp\<close>

text \<open>
  The syntax tree of the patterns the packages compile. A character class is a list of
  inclusive ranges; \<open>BeginText\<close> is \<open>\A\<close>, \<open>EndText\<close> is \<open>\z\<close>.
\<close>

datatype rx =
    Cls "(char \<times> char) list"
  | Eps
  | BeginText
  | EndText
  | Cat rx rx
  | Alt rx rx
  | Star rx

abbreviation Lit :: "char \<Rightarrow> rx" where
  "Lit c \<equiv> Cls [(c, c)]"

abbreviation Plus :: "rx \<Rightarrow> rx" where
  "Plus r \<equiv> Cat r (Star r)"

abbreviation Opt :: "rx \<Rightarrow> rx" where
  "Opt r \<equiv> Alt r Eps"

fun cats :: "rx list \<Rightarrow> rx" where
  "cats [] = Eps"
| "cats [r] = r"
| "cats (r # rs) = Cat r (cats rs)"

fun alts :: "rx list \<Rightarrow> rx" where
  "alts [] = Cls []"
| "alts [r] = r"
| "alts (r # rs) = Alt r (alts rs)"

definition str :: "string \<Rightarrow> rx" where
  "str s = cats (map Lit s)"

definition in_class :: "(char \<times> char) list \<Rightarrow> char \<Rightarrow> bool" where
  "in_class rs c = list_ex (\<lambda>(lo, hi). (of_char lo :: int) \<le> of_char c \<and> (of_char c :: int) \<le> of_char hi) rs"

text \<open>
  Go's regexp returns the leftmost match and, among those, the one a backtracking search
  finds first. \<open>run r (b, s)\<close> lists, in that search order, what is left of the text after
  each way of matching \<open>r\<close> at the front of \<open>s\<close>; \<open>b\<close> says whether the position is the
  beginning of the text. A starred group is not iterated again after an iteration that
  consumed nothing.
\<close>

function run :: "rx \<Rightarrow> bool \<times> string \<Rightarrow> (bool \<times> string) list" where
  "run (Cls rs) (b, s) =
     (case s of [] \<Rightarrow> [] | c # cs \<Rightarrow> if in_class rs c then [(False, cs)] else [])"
| "run Eps (b, s) = [(b, s)]"
| "run BeginText (b, s) = (if b then [(b, s)] else [])"
| "run EndText (b, s) = (if s = [] then [(b, s)] else [])"
| "run (Cat r1 r2) (b, s) = concat (map (run r2) (run r1 (b, s)))"
| "run (Alt r1 r2) (b, s) = run r1 (b, s) @ run r2 (b, s)"
| "run (Star r) (b, s) =
     concat (map (run (Star r)) (filter (\<lambda>c. length (snd c) < length s) (run r (b, s)))) @ [(b, s)]"
  by pat_completeness auto
termination
  by (relation "measures [\<lambda>(r, c). size r, \<lambda>(r, c). length (snd c)]") auto

text \<open>
  The leftmost match at or after the current position: the text from the start of the
  match and the text after it.
\<close>

fun search :: "rx \<Rightarrow> bool \<Rightarrow> string \<Rightarrow> (string \<times> string) option" where
  "search r b [] = (case run r (b, []) of [] \<Rightarrow> None | c # _ \<Rightarrow> Some ([], snd c))"
| "search r b (x # xs) =
     (case run r (b, x # xs) of [] \<Rightarrow> search r False xs | c # _ \<Rightarrow> Some (x # xs, snd c))"

definition MatchString :: "rx \<Rightarrow> string \<Rightarrow> bool" where
  "MatchString r s = (search r True s \<noteq> None)"

text \<open>
  \<open>FindAllString(s, -1)\<close>: the successive non-overlapping matches. \<open>prev\<close> says that the
  previous match ended at the current position; Go drops an empty match there and moves
  one character on.
\<close>

function findAll :: "rx \<Rightarrow> bool \<Rightarrow> bool \<Rightarrow> string \<Rightarrow> string list" where
  "findAll r b prev s =
     (case search r b s of
        None \<Rightarrow> []
      | Some (s1, s2) \<Rightarrow>
          if length s2 < length s
          then take (length s1 - length s2) s1 # findAll r False True s2
          else (if prev then [] else [[]]) @
               (case s of [] \<Rightarrow> [] | _ # cs \<Rightarrow> findAll r False False cs))"
  by pat_completeness auto
termination
  by (relation "measure (\<lambda>(r, b, prev, s). length s)") auto

definition FindAllString :: "rx \<Rightarrow> string \<Rightarrow> string list" where
  "FindAllString r s = findAll r True False s"

subsection \<open>Package strings\<close>

text \<open>
  \<open>TrimSpace\<close> removes leading and trailing white space. Its only caller passes a string
  that matched the anchored version pattern, which is ASCII, so the white space of
  Unicode beyond ASCII (multi-byte in UTF-8) is left out of \<open>isSpace\<close>.
\<close>

definition isSpace :: "char \<Rightarrow> bool" where
  "isSpace c = (c \<in> set [CHR 0x09, CHR 0x0A, CHR 0x0B, CHR 0x0C, CHR 0x0D, CHR '' ''])"

definition TrimSpace :: "string \<Rightarrow> string" where
  "TrimSpace s = rev (dropWhile isSpace (rev (dropWhile isSpace s)))"

definition HasPrefix :: "string \<Rightarrow> string \<Rightarrow> bool" where
  "HasPrefix s p = (take (length p) s = p)"

text \<open>\<open>ReplaceAll\<close>, \<open>Replace\<close> with \<open>n = 1\<close>, \<open>Contains\<close>, \<open>Split\<close> and \<open>Join\<close>.\<close>

function ReplaceAll :: "string \<Rightarrow> string \<Rightarrow> string \<Rightarrow> string" where
  "ReplaceAll [] old new = (if old = [] then new else [])"
| "ReplaceAll (c # cs) old new =
     (if old = [] then new @ c # ReplaceAll cs old new
      else if HasPrefix (c # cs) old then new @ ReplaceAll (drop (length old) (c # cs)) old new
      else c # ReplaceAll cs old new)"
  by pat_completeness auto
termination
  by (relation "measure (\<lambda>(s, old, new). length s)") auto

fun Replace1 :: "string \<Rightarrow> string \<Rightarrow> string \<Rightarrow> string" where
  "Replace1 [] old new = (if old = [] then new else [])"
| "Replace1 (c # cs) old new =
     (if HasPrefix (c # cs) old then new @ drop (length old) (c # cs)
      else c # Replace1 cs old new)"

fun Contains :: "string \<Rightarrow> string \<Rightarrow> bool" where
  "Contains [] sub = (sub = [])"
| "Contains (c # cs) sub = (HasPrefix (c # cs) sub \<or> Contains cs sub)"

text \<open>\<open>splitFrom cur s sep\<close>: \<open>cur\<close> is the piece being read. The separator is not empty.\<close>

function splitFrom :: "string \<Rightarrow> string \<Rightarrow> string \<Rightarrow> string list" where
  "splitFrom cur [] sep = [cur]"
| "splitFrom cur (c # cs) sep =
     (if sep \<noteq> [] \<and> HasPrefix (c # cs) sep
      then cur # splitFrom [] (drop (length sep) (c # cs)) sep
      else splitFrom (cur @ [c]) cs sep)"
  by pat_completeness auto
termination
  by (relation "measure (\<lambda>(cur, s, sep). length s)") auto

definition Split :: "string \<Rightarrow> string \<Rightarrow> string list" where
  "Split s sep = (if sep = [] then map (\<lambda>c. [c]) s else splitFrom [] s sep)"

fun Join :: "string list \<Rightarrow> string \<Rightarrow> string" where
  "Join [] sep = []"
| "Join [x] sep = x"
| "Join (x # y # ys) sep = x @ sep @ Join (y # ys) sep"

subsection \<open>Package strconv\<close>

text \<open>
  \<open>Atoi\<close> returns a value and an error. On a syntax error the value is 0; out of the range
  of the 64-bit \<open>int\<close> it is the nearest bound. The callers that drop the error still
  read the value.
\<close>

datatype NumError = ErrSyntax | ErrRange

definition isDigit :: "char \<Rightarrow> bool" where
  "isDigit c = ((of_char (CHR ''0'') :: int) \<le> of_char c \<and> (of_char c :: int) \<le> of_char (CHR ''9''))"

definition decimal :: "string \<Rightarrow> int" where
  "decimal ds = foldl (\<lambda>n c. 10 * n + (of_char c - of_char (CHR ''0''))) 0 ds"

definition maxInt :: int where
  "maxInt = 2 ^ 63 - 1"

definition minInt :: int where
  "minInt = - (2 ^ 63)"

definition Atoi :: "string \<Rightarrow> int \<times> NumError option" where
  "Atoi s =
     (let (neg, ds) = (case s of
                         [] \<Rightarrow> (False, [])
                       | c # cs \<Rightarrow> if c = CHR ''+'' then (False, cs)
                                   else if c = CHR ''-'' then (True, cs)
                                   else (False, c # cs))
      in if ds = [] \<or> \<not> list_all isDigit ds then (0, Some ErrSyntax)
         else let n = decimal ds
              in if \<not> neg \<and> maxInt < n then (maxInt, Some ErrRange)
                 else if neg \<and> - minInt < n then (minInt, Some ErrRange)
                 else (if neg then - n else n, None))"

text \<open>\<open>digits n\<close> writes \<open>n \<ge> 0\<close> in base 10.\<close>

function digits :: "int \<Rightarrow> string" where
  "digits n = (if n < 10 then [char_of (of_char (CHR ''0'') + n)]
               else digits (n div 10) @ [char_of (of_char (CHR ''0'') + n mod 10)])"
  by pat_completeness auto
termination
  by (relation "measure nat") auto

definition Itoa :: "int \<Rightarrow> string" where
  "Itoa i = (if i < 0 then CHR ''-'' # digits (- i) else digits i)"

text \<open>\<open>int\<close> arithmetic wraps around at 64 bits.\<close>

definition wrap64 :: "int \<Rightarrow> int" where
  "wrap64 i = (i + 2 ^ 63) mod 2 ^ 64 - 2 ^ 63"

section \<open>Package version\<close>

text \<open>Every failure of the two packages: the errors they return and the ways they abort.\<close>

datatype error =
    MalformedVersion string
  | UnableToParse string
  | NotOperatorAndVersion
  | InvalidOperator string
  | PanicLastElement
  | PanicIndexOutOfRange
  | PanicNilDereference

record Version =
  version :: string

subsection \<open>The patterns\<close>

definition digit :: rx where
  "digit = Cls [(CHR ''0'', CHR ''9'')]"

definition letter :: rx where
  "letter = Cls [(CHR ''a'', CHR ''z''), (CHR ''A'', CHR ''Z'')]"

definition alnum :: rx where
  "alnum = Cls [(CHR ''0'', CHR ''9''), (CHR ''a'', CHR ''z''), (CHR ''A'', CHR ''Z'')]"

definition alnum_dash :: rx where
  "alnum_dash = Cls [(CHR ''0'', CHR ''9''), (CHR ''a'', CHR ''z''), (CHR ''A'', CHR ''Z''),
                     (CHR ''-'', CHR ''-'')]"

text \<open>\<open>\s\<close> is \<open>[\t\n\f\r ]\<close> in Go's syntax.\<close>

definition space :: rx where
  "space = Cls [(CHR 0x09, CHR 0x0A), (CHR 0x0C, CHR 0x0D), (CHR '' '', CHR '' '')]"

text \<open>\<^verbatim>\<open>[0-9]+(\.[0-9a-zA-Z]+)*(-[0-9a-zA-Z-]+(\.[0-9a-zA-Z-]+)*)?\<close>\<close>

definition VersionPattern :: rx where
  "VersionPattern =
     cats [Plus digit,
           Star (Cat (Lit CHR ''.'') (Plus alnum)),
           Opt (cats [Lit CHR ''-'', Plus alnum_dash,
                      Star (Cat (Lit CHR ''.'') (Plus alnum_dash))])]"

text \<open>\<^verbatim>\<open>\A\s*(%s)?\s*\z\<close> with \<open>VersionPattern\<close> for \<^verbatim>\<open>%s\<close>.\<close>

definition VersionPatternAnchored :: rx where
  "VersionPatternAnchored = cats [BeginText, Star space, Opt VersionPattern, Star space, EndText]"

text \<open>
  The pattern \<open>New\<close> tests before it substitutes \<open>"0"\<close>, as the source writes it, between
  two slashes: \<^verbatim>\<open>/\A\s*\z/\<close>.
\<close>

definition blankPattern :: rx where
  "blankPattern = cats [Lit CHR ''/'', BeginText, Star space, EndText, Lit CHR ''/'']"

text \<open>\<^verbatim>\<open>[a-zA-Z]+\<close>, \<^verbatim>\<open>[a-zA-Z]\<close> and \<^verbatim>\<open>[0-9]+|[a-zA-Z]+\<close>.\<close>

definition lettersPattern :: rx where
  "lettersPattern = Plus letter"

definition letterPattern :: rx where
  "letterPattern = letter"

definition segmentPattern :: rx where
  "segmentPattern = Alt (Plus digit) (Plus letter)"

subsection \<open>Construction\<close>

definition isCorrect :: "string \<Rightarrow> bool" where
  "isCorrect v = MatchString VersionPatternAnchored v"

definition New :: "string \<Rightarrow> error + Version" where
  "New v =
     (if \<not> isCorrect v then Inl (MalformedVersion v)
      else let ver = v;
               ver = (if MatchString blankPattern v then ''0'' else ver);
               ver = TrimSpace ver;
               ver = ReplaceAll ver ''-'' ''.pre.''
           in Inr \<lparr>version = ver\<rparr>)"

text \<open>\<open>New2\<close> returns a pointer, \<open>nil\<close> on error.\<close>

definition New2 :: "string \<Rightarrow> Version option" where
  "New2 v = (case New v of Inl err \<Rightarrow> None | Inr ver \<Rightarrow> Some ver)"

definition segments :: "Version \<Rightarrow> string list" where
  "segments v =
     (let results = FindAllString segmentPattern (version v)
      in if length results > 0 then results else [])"

definition IsPrerelease :: "Version \<Rightarrow> bool" where
  "IsPrerelease v = MatchString letterPattern (version v)"

definition Eql :: "Version \<Rightarrow> Version \<Rightarrow> bool" where
  "Eql v other = (version v = version other)"

subsection \<open>Release and Bump\<close>

text \<open>
  \<open>Bump\<close>, \<open>Release\<close> and \<open>ApproximateRecommendation\<close> open with the same loop:

  \<^verbatim>\<open>for i, segment := range segments {
      if regexp.MustCompile(`[a-zA-Z]+`).MatchString(segment) { segments = segments[0:i] }
  }\<close>

  The range expression is evaluated once, so the loop visits every element of the
  original slice \<open>orig\<close>. Nothing leaves the loop early. The variable \<open>segments\<close>, here
  \<open>cur\<close>, is re-sliced in place: \<open>segments[0:i]\<close> is legal up to the capacity of the
  slice, which stays that of \<open>orig\<close>, and it reads the array of \<open>orig\<close>, which no one
  writes: it is \<open>take i orig\<close>, also when \<open>cur\<close> is shorter than \<open>i\<close>.
\<close>

function truncateLoop :: "string list \<Rightarrow> nat \<Rightarrow> string list \<Rightarrow> string list" where
  "truncateLoop orig i cur =
     (if i < length orig
      then truncateLoop orig (Suc i)
             (if MatchString lettersPattern (orig ! i) then take i orig else cur)
      else cur)"
  by pat_completeness auto
termination
  by (relation "measure (\<lambda>(orig, i, cur). length orig - i)") auto

definition truncated :: "Version \<Rightarrow> string list" where
  "truncated v = (let segs = segments v in truncateLoop segs 0 segs)"

text \<open>\<open>Release\<close> returns a pointer: the receiver, a new version, or \<open>nil\<close>.\<close>

definition Release :: "Version \<Rightarrow> Version option" where
  "Release v =
     (if \<not> IsPrerelease v then Some v
      else case New (Join (truncated v) ''.'') of
             Inl err \<Rightarrow> None
           | Inr newVersion \<Rightarrow> Some newVersion)"

text \<open>
  \<open>Bump\<close> indexes \<open>segments[len(segments)-1]\<close>, which aborts on an empty slice, and panics
  when \<open>Atoi\<close> fails on that element.
\<close>

definition Bump :: "Version \<Rightarrow> error + Version" where
  "Bump v =
     (let segs = truncated v;
          segs = (if length segs > 1 then take (length segs - 1) segs else segs)
      in if length segs = 0 then Inl PanicIndexOutOfRange
         else case Atoi (segs ! (length segs - 1)) of
                (num, Some err) \<Rightarrow> Inl PanicLastElement
              | (num, None) \<Rightarrow>
                  (let num = wrap64 (num + 1);
                       segs = segs[length segs - 1 := Itoa num]
                   in New (Join segs ''.'')))"

definition ApproximateRecommendation :: "Version \<Rightarrow> string" where
  "ApproximateRecommendation v =
     (let segs = truncated v;
          segs = (if length segs > 2 then take 2 segs else segs);
          segs = (if length segs < 2 then segs @ [''0''] else segs);
          recommendation = ''~> '' @ Join segs ''.''
      in if IsPrerelease v then recommendation @ ''.a'' else recommendation)"

subsection \<open>Canonical segments\<close>

text \<open>
  The loop of \<open>splitSegments\<close> records the index of the first segment with a letter and
  stops there; \<open>stringStart\<close> stays 0 when there is none.
\<close>

fun stringStartLoop :: "string list \<Rightarrow> nat \<Rightarrow> nat" where
  "stringStartLoop [] i = 0"
| "stringStartLoop (v # vs) i =
     (if MatchString lettersPattern v then i else stringStartLoop vs (Suc i))"

definition splitSegments :: "Version \<Rightarrow> string list \<times> string list" where
  "splitSegments v =
     (let segs = segments v;
          stringStart = stringStartLoop segs 0;
          stringStart = (if stringStart = 0 then length segs else stringStart);
          stringElements = drop stringStart segs;
          numericSegments = take stringStart segs
      in (numericSegments, stringElements))"

definition reverseSlice :: "'a list \<Rightarrow> 'a list" where
  "reverseSlice s = rev s"

definition deleteArrayElement :: "string list \<Rightarrow> nat \<Rightarrow> string list" where
  "deleteArrayElement arr elem =
     (if length arr = 0 then arr
      else map snd (filter (\<lambda>(i, v). i \<noteq> elem) (enumerate 0 arr)))"

text \<open>
  The two loops of \<open>canonicalSegments\<close> range over the slice as it is when the loop
  starts (first argument) while the variable is replaced by a copy without its first
  element (second argument). The first loop drops the error of \<open>Atoi\<close>, the second
  stops on it.
\<close>

fun numericsLoop :: "string list \<Rightarrow> string list \<Rightarrow> string list" where
  "numericsLoop [] numerics = numerics"
| "numericsLoop (v # vs) numerics =
     (let (value, err) = Atoi v
      in if value = 0 then numericsLoop vs (deleteArrayElement numerics 0) else numerics)"

fun stringsetLoop :: "string list \<Rightarrow> string list \<Rightarrow> string list" where
  "stringsetLoop [] stringset = stringset"
| "stringsetLoop (v # vs) stringset =
     (let (value, err) = Atoi v
      in if err \<noteq> None then stringset
         else if value = 0 then stringsetLoop vs (deleteArrayElement stringset 0)
         else stringset)"

text \<open>
  \<open>numerics\<close> and \<open>stringset\<close> are disjoint parts of one fresh array, so reversing each
  in place does not touch the other.
\<close>

definition canonicalSegments :: "Version \<Rightarrow> string list" where
  "canonicalSegments v =
     (let (numerics, stringset) = splitSegments v;
          numerics = reverseSlice numerics;
          stringset = reverseSlice stringset;
          numerics = numericsLoop numerics numerics;
          stringset = stringsetLoop stringset stringset;
          numerics = reverseSlice numerics;
          stringset = reverseSlice stringset
      in numerics @ stringset)"

subsection \<open>Compare\<close>

text \<open>\<open>reflect.String\<close> and \<open>reflect.Int\<close>.\<close>

datatype Kind = KindString | KindInt

definition extractKind :: "string \<Rightarrow> Kind" where
  "extractKind s = (if MatchString lettersPattern s then KindString else KindInt)"

text \<open>The loop of \<open>strArraysEqual\<close> runs to the end; \<open>sa2\<close> is as long as \<open>sa1\<close> there.\<close>

fun strArraysEqualLoop :: "string list \<Rightarrow> string list \<Rightarrow> nat \<Rightarrow> bool \<Rightarrow> bool" where
  "strArraysEqualLoop [] sa2 i eq = eq"
| "strArraysEqualLoop (v # vs) sa2 i eq =
     strArraysEqualLoop vs sa2 (Suc i) (if v \<noteq> sa2 ! i then False else eq)"

definition strArraysEqual :: "string list \<Rightarrow> string list \<Rightarrow> bool" where
  "strArraysEqual sa1 sa2 =
     (if length sa1 \<noteq> length sa2 then False else strArraysEqualLoop sa1 sa2 0 True)"

text \<open>
  The loop of \<open>Compare\<close>, \<open>for i := 0; i <= limit; i++\<close>, from index \<open>i\<close> on. The three
  \<open>continue\<close> and \<open>return\<close> tests come in the order of the source.
\<close>

function compareLoop :: "string list \<Rightarrow> string list \<Rightarrow> int \<Rightarrow> nat \<Rightarrow> int" where
  "compareLoop l r limit i =
     (if int i \<le> limit
      then let li = (if i < length l then l ! i else ''0'');
               ri = (if i < length r then r ! i else ''0'')
           in if li = ri then compareLoop l r limit (Suc i)
              else if extractKind li = KindString \<and> extractKind ri = KindInt then - 1
              else if extractKind li = KindInt \<and> extractKind ri = KindString then 1
              else if extractKind li = KindString \<and> extractKind ri = KindString
                   then compareLoop l r limit (Suc i)
              else let (lint, lerr) = Atoi li;
                       (rint, rerr) = Atoi ri
                   in if lint > rint then 1 else - 1
      else 0)"
  by pat_completeness auto
termination
  by (relation "measure (\<lambda>(l, r, limit, i). nat (limit + 1 - int i))") auto

definition Compare :: "Version \<Rightarrow> Version \<Rightarrow> int" where
  "Compare v o' =
     (let l = canonicalSegments v;
          r = canonicalSegments o'
      in if version v = version o' \<or> strArraysEqual l r then 0
         else let lsz = length l;
                  rsz = length r;
                  limit = (if lsz > rsz then int lsz else int rsz);
                  limit = limit - 1
              in compareLoop l r limit 0)"

section \<open>Package requirement\<close>

text \<open>
  The repository holds the package twice. The file \<open>requirement/requirement.go\<close> splits a
  constraint at its blanks and has \<open>parse\<close> as a method; the other file lists the
  operators longest first, cuts the operator out of the constraint, and its \<open>HasNone\<close>
  calls \<open>Compare\<close>. \<open>Concat\<close> and \<open>IsSpecific\<close> are the same text in both. The plain names
  below are those of the second file; what differs in \<open>requirement/requirement.go\<close>
  carries a \<open>1\<close>. The \<open>HasNone\<close> of \<open>requirement/requirement.go\<close> compares the address in
  \<open>Version\<close> with the one in the default requirement; it is \<open>HasNone1\<close>, in a subsection of
  its own where the versions carry their addresses.
\<close>

text \<open>\<open>Version\<close> is a pointer and may be \<open>nil\<close>.\<close>

record RequirementSpecifier =
  Operator :: string
  Version :: "Version option"

record Requirement =
  requirements :: "RequirementSpecifier list"

text \<open>\<open>Ops\<close>, and the \<open>Op\<close> fields of \<open>ops\<close>, which are the same list in each file.\<close>

definition Ops :: "string list" where
  "Ops = [''!='', ''>='', ''<='', ''~>'', ''>'', ''<'', ''='']"

definition Ops1 :: "string list" where
  "Ops1 = [''='', ''!='', ''>'', ''<'', ''>='', ''<='', ''~>'']"

text \<open>
  \<^verbatim>\<open>\A\s*(%s)?\s*(%s)\s*\z\<close> with the operators, joined by \<open>|\<close>, and \<open>VersionPattern\<close>.
\<close>

definition quoted :: rx where
  "quoted = alts (map str Ops)"

definition pattern :: rx where
  "pattern = cats [BeginText, Star space, Opt quoted, Star space, VersionPattern, Star space, EndText]"

definition quoted1 :: rx where
  "quoted1 = alts (map str Ops1)"

definition pattern1 :: rx where
  "pattern1 = cats [BeginText, Star space, Opt quoted1, Star space, VersionPattern, Star space, EndText]"

definition defaultRequirement :: RequirementSpecifier where
  "defaultRequirement = \<lparr>Operator = ''>='', Version = New2 ''0''\<rparr>"

definition defaultPrereleaseRequirement :: RequirementSpecifier where
  "defaultPrereleaseRequirement = \<lparr>Operator = ''>='', Version = New2 ''0.a''\<rparr>"

definition DefaultRequirement :: RequirementSpecifier where
  "DefaultRequirement = defaultRequirement"

definition DefaultPrereleaseRequirement :: RequirementSpecifier where
  "DefaultPrereleaseRequirement = defaultPrereleaseRequirement"

subsection \<open>parse\<close>

text \<open>The loop over \<open>Ops\<close> that fills \<open>parts\<close> and stops at the first operator found.\<close>

fun partsLoop :: "string list \<Rightarrow> string \<Rightarrow> string list" where
  "partsLoop [] requirement = []"
| "partsLoop (op # rest) requirement =
     (if Contains requirement op then [op, Replace1 requirement op []]
      else partsLoop rest requirement)"

text \<open>The loop over \<open>ops\<close> that sets \<open>operator\<close>; it stays empty when nothing is equal.\<close>

fun operatorLoop :: "string list \<Rightarrow> string \<Rightarrow> string" where
  "operatorLoop [] p = []"
| "operatorLoop (op # rest) p = (if p = op then op else operatorLoop rest p)"

definition parse :: "string \<Rightarrow> error + RequirementSpecifier" where
  "parse requirement =
     (if \<not> MatchString pattern requirement then Inl (UnableToParse requirement)
      else let parts = partsLoop Ops requirement
           in if length parts \<noteq> 2 then Inl NotOperatorAndVersion
              else let operator = operatorLoop Ops (parts ! 0)
                   in if operator = [] then Inl (InvalidOperator operator)
                      else if operator = ''>='' \<and> parts ! 1 = ''0'' then Inr DefaultRequirement
                      else if operator = ''>='' \<and> parts ! 1 = ''0.a''
                           then Inr DefaultPrereleaseRequirement
                      else case New (parts ! 1) of
                             Inl err \<Rightarrow> Inl err
                           | Inr ver \<Rightarrow> Inr \<lparr>Operator = operator, Version = Some ver\<rparr>)"

text \<open>The method of \<open>requirement/requirement.go\<close>.\<close>

definition parse1 :: "string \<Rightarrow> error + RequirementSpecifier" where
  "parse1 requirement =
     (if \<not> MatchString pattern1 requirement then Inl (UnableToParse requirement)
      else let parts = Split requirement '' ''
           in if length parts \<noteq> 2 then Inl NotOperatorAndVersion
              else let operator = operatorLoop Ops1 (parts ! 0)
                   in if operator = [] then Inl (InvalidOperator operator)
                      else if operator = ''>='' \<and> parts ! 1 = ''0'' then Inr DefaultRequirement
                      else if operator = ''>='' \<and> parts ! 1 = ''0.a''
                           then Inr DefaultPrereleaseRequirement
                      else Inr \<lparr>Operator = operator, Version = New2 (parts ! 1)\<rparr>)"

subsection \<open>New\<close>

fun newLoop ::
  "(string \<Rightarrow> error + RequirementSpecifier) \<Rightarrow> string list \<Rightarrow> RequirementSpecifier list
     \<Rightarrow> error + RequirementSpecifier list" where
  "newLoop p [] reqs = Inr reqs"
| "newLoop p (v # vs) reqs =
     (case p v of Inl err \<Rightarrow> Inl err | Inr req \<Rightarrow> newLoop p vs (reqs @ [req]))"

definition Requirement_New :: "string list \<Rightarrow> error + Requirement" where
  "Requirement_New rs =
     (case newLoop parse rs [] of
        Inl err \<Rightarrow> Inl err
      | Inr reqs \<Rightarrow> Inr \<lparr>requirements = reqs\<rparr>)"

subsection \<open>Concat\<close>

text \<open>A method called through a \<open>nil\<close> version pointer aborts when it reads the field.\<close>

definition ComparePtr :: "Version option \<Rightarrow> Version option \<Rightarrow> error + int" where
  "ComparePtr v o' =
     (case (v, o') of
        (Some a, Some b) \<Rightarrow> Inr (Compare a b)
      | _ \<Rightarrow> Inl PanicNilDereference)"

text \<open>
  The inner loop ranges over the specifiers present when it starts (\<open>registered\<close>) and
  appends to \<open>r.requirements\<close> (\<open>cur\<close>). \<open>Inr None\<close> is the \<open>return nil\<close> after a failed
  \<open>parse\<close>; \<open>p\<close> is the \<open>parse\<close> of the file.
\<close>

fun concatInner ::
  "(string \<Rightarrow> error + RequirementSpecifier) \<Rightarrow> string \<Rightarrow> RequirementSpecifier list
     \<Rightarrow> RequirementSpecifier list \<Rightarrow> error + RequirementSpecifier list option" where
  "concatInner p req [] cur = Inr (Some cur)"
| "concatInner p req (registeredReq # registered) cur =
     (case p req of
        Inl err \<Rightarrow> Inr None
      | Inr splitReq \<Rightarrow>
          if Operator registeredReq = Operator splitReq then concatInner p req registered cur
          else case ComparePtr (Version splitReq) (Version registeredReq) of
                 Inl abort \<Rightarrow> Inl abort
               | Inr c \<Rightarrow> if c = 0 then concatInner p req registered cur
                          else concatInner p req registered (cur @ [splitReq]))"

fun concatOuter ::
  "(string \<Rightarrow> error + RequirementSpecifier) \<Rightarrow> string list \<Rightarrow> RequirementSpecifier list
     \<Rightarrow> error + RequirementSpecifier list option" where
  "concatOuter p [] cur = Inr (Some cur)"
| "concatOuter p (req # reqs) cur =
     (case concatInner p req cur cur of
        Inl abort \<Rightarrow> Inl abort
      | Inr None \<Rightarrow> Inr None
      | Inr (Some cur') \<Rightarrow> concatOuter p reqs cur')"

text \<open>\<open>Concat\<close> returns its receiver, or \<open>nil\<close> (\<open>None\<close>).\<close>

definition Concat :: "Requirement \<Rightarrow> string list \<Rightarrow> error + Requirement option" where
  "Concat r rs =
     (case concatOuter parse rs (requirements r) of
        Inl abort \<Rightarrow> Inl abort
      | Inr None \<Rightarrow> Inr None
      | Inr (Some reqs) \<Rightarrow> Inr (Some (r\<lparr>requirements := reqs\<rparr>)))"

definition Concat1 :: "Requirement \<Rightarrow> string list \<Rightarrow> error + Requirement option" where
  "Concat1 r rs =
     (case concatOuter parse1 rs (requirements r) of
        Inl abort \<Rightarrow> Inl abort
      | Inr None \<Rightarrow> Inr None
      | Inr (Some reqs) \<Rightarrow> Inr (Some (r\<lparr>requirements := reqs\<rparr>)))"

subsection \<open>The predicates\<close>

text \<open>\<open>&&\<close> does not evaluate its right side when the left one is false.\<close>

definition HasNone :: "Requirement \<Rightarrow> error + bool" where
  "HasNone r =
     (if length (requirements r) = 1
      then if Operator (requirements r ! 0) = Operator DefaultRequirement
           then case ComparePtr (Version (requirements r ! 0)) (Version DefaultPrereleaseRequirement) of
                  Inl abort \<Rightarrow> Inl abort
                | Inr c \<Rightarrow> Inr (c = 0)
           else Inr False
      else Inr False)"

definition IsSpecific :: "Requirement \<Rightarrow> bool" where
  "IsSpecific r =
     (if length (requirements r) > 1 then True
      else if length (requirements r) > 0
           then let req = requirements r ! 0
                in Operator req \<noteq> ''>'' \<and> Operator req \<noteq> ''>=''
      else True)"

subsection \<open>HasNone of requirement/requirement.go\<close>

text \<open>
  The \<open>HasNone\<close> of \<open>requirement/requirement.go\<close> compares two pointers,
  \<open>r.requirements[0].Version == DefaultRequirement().Version\<close>, so for this file a
  \<open>*Version\<close> that is not \<open>nil\<close> is the address it was allocated at together with the
  version stored there. \<open>version.New\<close> allocates one \<open>Version\<close> when it succeeds:
  \<open>New2_at next\<close> hands out the next free address \<open>next\<close> and returns the one after it.
  The package variables are initialised in the order they are declared, so the version
  of \<open>defaultRequirement\<close> is at address 0, that of \<open>defaultPrereleaseRequirement\<close> at
  address 1, and \<open>initialNext\<close> is the first address free afterwards.
\<close>

record VersionAt =
  address :: nat
  target :: Version

record RequirementSpecifier1 =
  Operator1 :: string
  Version1 :: "VersionAt option"

record Requirement1 =
  requirements1 :: "RequirementSpecifier1 list"

definition New2_at :: "nat \<Rightarrow> string \<Rightarrow> VersionAt option \<times> nat" where
  "New2_at next v =
     (case New2 v of
        None \<Rightarrow> (None, next)
      | Some ver \<Rightarrow> (Some \<lparr>address = next, target = ver\<rparr>, Suc next))"

definition defaultRequirement1 :: RequirementSpecifier1 where
  "defaultRequirement1 = \<lparr>Operator1 = ''>='', Version1 = fst (New2_at 0 ''0'')\<rparr>"

definition defaultPrereleaseRequirement1 :: RequirementSpecifier1 where
  "defaultPrereleaseRequirement1 =
     \<lparr>Operator1 = ''>='', Version1 = fst (New2_at (snd (New2_at 0 ''0'')) ''0.a'')\<rparr>"

definition initialNext :: nat where
  "initialNext = snd (New2_at (snd (New2_at 0 ''0'')) ''0.a'')"

definition DefaultRequirement1 :: RequirementSpecifier1 where
  "DefaultRequirement1 = defaultRequirement1"

definition DefaultPrereleaseRequirement1 :: RequirementSpecifier1 where
  "DefaultPrereleaseRequirement1 = defaultPrereleaseRequirement1"

text \<open>
  The method \<open>parse\<close> once more, as \<open>parse1\<close> above, now with the addresses: it returns
  one of the two package variables or a specifier with a version newly allocated.
\<close>

definition parse1_at :: "nat \<Rightarrow> string \<Rightarrow> (error + RequirementSpecifier1) \<times> nat" where
  "parse1_at next requirement =
     (if \<not> MatchString pattern1 requirement then (Inl (UnableToParse requirement), next)
      else let parts = Split requirement '' ''
           in if length parts \<noteq> 2 then (Inl NotOperatorAndVersion, next)
              else let operator = operatorLoop Ops1 (parts ! 0)
                   in if operator = [] then (Inl (InvalidOperator operator), next)
                      else if operator = ''>='' \<and> parts ! 1 = ''0''
                           then (Inr DefaultRequirement1, next)
                      else if operator = ''>='' \<and> parts ! 1 = ''0.a''
                           then (Inr DefaultPrereleaseRequirement1, next)
                      else let (ver, next') = New2_at next (parts ! 1)
                           in (Inr \<lparr>Operator1 = operator, Version1 = ver\<rparr>, next'))"

fun newLoop1_at ::
  "nat \<Rightarrow> string list \<Rightarrow> RequirementSpecifier1 list
     \<Rightarrow> (error + RequirementSpecifier1 list) \<times> nat" where
  "newLoop1_at next [] reqs = (Inr reqs, next)"
| "newLoop1_at next (v # vs) reqs =
     (case parse1_at next v of
        (Inl err, next') \<Rightarrow> (Inl err, next')
      | (Inr req, next') \<Rightarrow> newLoop1_at next' vs (reqs @ [req]))"

definition Requirement_New1 :: "nat \<Rightarrow> string list \<Rightarrow> (error + Requirement1) \<times> nat" where
  "Requirement_New1 next rs =
     (case newLoop1_at next rs [] of
        (Inl err, next') \<Rightarrow> (Inl err, next')
      | (Inr reqs, next') \<Rightarrow> (Inr \<lparr>requirements1 = reqs\<rparr>, next'))"

text \<open>\<open>==\<close> on two pointers: both \<open>nil\<close>, or the same address.\<close>

definition samePointer :: "VersionAt option \<Rightarrow> VersionAt option \<Rightarrow> bool" where
  "samePointer p q = (map_option address p = map_option address q)"

definition HasNone1 :: "Requirement1 \<Rightarrow> bool" where
  "HasNone1 r =
     (if length (requirements1 r) = 1
      then Operator1 (requirements1 r ! 0) = Operator1 DefaultRequirement1
           \<and> samePointer (Version1 (requirements1 r ! 0)) (Version1 DefaultRequirement1)
      else False)"

text \<open>Without its addresses a specifier of this subsection is one of the record above.\<close>

definition forget :: "RequirementSpecifier1 \<Rightarrow> RequirementSpecifier" where
  "forget s = \<lparr>Operator = Operator1 s, Version = map_option target (Version1 s)\<rparr>"

section \<open>Properties\<close>

subsection \<open>The expectations of the repository's tests\<close>

lemma Test_New:
  "New ''1.'' = Inl (MalformedVersion ''1.'') \<and> New ''1.5-'' = Inl (MalformedVersion ''1.5-'')
   \<and> New ''1.5-3'' = Inr \<lparr>version = ''1.5.pre.3''\<rparr>
   \<and> New ''2.3-0-0'' = Inr \<lparr>version = ''2.3.pre.0.pre.0''\<rparr>"
  by code_simp

lemma Test_CanonicalSegments:
  "segments \<lparr>version = ''2.3.pre.0.pre.0''\<rparr> = [''2'', ''3'', ''pre'', ''0'', ''pre'', ''0'']
   \<and> splitSegments \<lparr>version = ''2.3.pre.0.pre.0''\<rparr> = ([''2'', ''3''], [''pre'', ''0'', ''pre'', ''0''])
   \<and> canonicalSegments \<lparr>version = ''2.3.pre.0.pre.0''\<rparr> = [''2'', ''3'', ''pre'', ''0'', ''pre'']
   \<and> canonicalSegments \<lparr>version = ''1.5.pre.3''\<rparr> = [''1'', ''5'', ''pre'', ''3'']"
  by code_simp

lemma Test_Compare:
  "Compare \<lparr>version = ''1.1''\<rparr> \<lparr>version = ''1.0''\<rparr> = 1
   \<and> Compare \<lparr>version = ''1.1''\<rparr> \<lparr>version = ''1.2''\<rparr> = - 1
   \<and> Compare \<lparr>version = ''1.1.pre.1.pre.1''\<rparr> \<lparr>version = ''1.1.pre.1.pre.2''\<rparr> = - 1
   \<and> Compare \<lparr>version = ''1.1.pre.1.pre.1''\<rparr> \<lparr>version = ''1.1.pre.2.pre.1''\<rparr> = - 1
   \<and> Compare \<lparr>version = ''1.1.pre.1.pre.1''\<rparr> \<lparr>version = ''1.0.pre.3.pre.1''\<rparr> = 1
   \<and> Compare \<lparr>version = ''1.1.pre.1.pre.1''\<rparr> \<lparr>version = ''1.12''\<rparr> = - 1"
  by code_simp

lemma Test_Bump:
  "Bump \<lparr>version = ''1.1.13.4.pre.3''\<rparr> = Inr \<lparr>version = ''1.1.14''\<rparr>
   \<and> Bump \<lparr>version = ''5.3.1.b.2''\<rparr> = Inr \<lparr>version = ''5.4''\<rparr>"
  by code_simp

lemma Test_Release:
  "Release \<lparr>version = ''1.2.5''\<rparr> = Some \<lparr>version = ''1.2.5''\<rparr>
   \<and> Release \<lparr>version = ''1.2.1.pre.2''\<rparr> = Some \<lparr>version = ''1.2.1''\<rparr>"
  by code_simp

lemma Test_Requirement_New:
  "Requirement_New [''> 1.2'', ''< 1.4'', ''!= 1.3.3'']
   = Inr \<lparr>requirements = [\<lparr>Operator = ''>'', Version = Some \<lparr>version = ''1.2''\<rparr>\<rparr>,
                           \<lparr>Operator = ''<'', Version = Some \<lparr>version = ''1.4''\<rparr>\<rparr>,
                           \<lparr>Operator = ''!='', Version = Some \<lparr>version = ''1.3.3''\<rparr>\<rparr>]\<rparr>"
  by code_simp

subsection \<open>Version\<close>

text \<open>
  C1. The header of the source lists, newest first, 1.0, 1.0.b1, 1.0.a.2, 0.9, so
  \<open>Compare\<close> of 1.0.b1 with 1.0.a.2 should be 1. The four strings are valid and
  \<open>Compare\<close> puts 1.0 first and 0.9 last, but between the two prereleases it answers
  \<open>-1\<close>: after the tie of \<open>b\<close> with \<open>a\<close> the numbers 1 and 2 decide, so the
  order it induces is 1.0, 1.0.a.2, 1.0.b1, 0.9.
\<close>

theorem Compare_prerelease_order:
  "New ''1.0'' = Inr \<lparr>version = ''1.0''\<rparr> \<and> New ''0.9'' = Inr \<lparr>version = ''0.9''\<rparr>
   \<and> New ''1.0.b1'' = Inr \<lparr>version = ''1.0.b1''\<rparr>
   \<and> New ''1.0.a.2'' = Inr \<lparr>version = ''1.0.a.2''\<rparr>
   \<and> canonicalSegments \<lparr>version = ''1.0.b1''\<rparr> = [''1'', ''b'', ''1'']
   \<and> canonicalSegments \<lparr>version = ''1.0.a.2''\<rparr> = [''1'', ''a'', ''2'']
   \<and> Compare \<lparr>version = ''1.0.b1''\<rparr> \<lparr>version = ''1.0.a.2''\<rparr> = - 1
   \<and> Compare \<lparr>version = ''1.0.a.2''\<rparr> \<lparr>version = ''1.0.b1''\<rparr> = 1
   \<and> Compare \<lparr>version = ''1.0''\<rparr> \<lparr>version = ''1.0.b1''\<rparr> = 1
   \<and> Compare \<lparr>version = ''1.0''\<rparr> \<lparr>version = ''1.0.a.2''\<rparr> = 1
   \<and> Compare \<lparr>version = ''1.0.b1''\<rparr> \<lparr>version = ''0.9''\<rparr> = 1
   \<and> Compare \<lparr>version = ''1.0.a.2''\<rparr> \<lparr>version = ''0.9''\<rparr> = 1"
  by code_simp

lemma run_blankPattern: "run blankPattern (b, s) = []"
  by (cases s) (simp_all add: blankPattern_def)

lemma search_blankPattern: "search blankPattern b s = None"
  by (induction s arbitrary: b) (simp_all add: run_blankPattern)

text \<open>
  C2. \<open>New\<close> accepts the empty string and a blank one, but the version it builds holds
  the empty string, not \<open>"0"\<close>: the pattern that guards the substitution begins with a
  slash followed by \<open>\A\<close>, and matches no string at all.
\<close>

theorem New_blank_is_empty:
  "New '''' = Inr \<lparr>version = ''''\<rparr> \<and> New '' '' = Inr \<lparr>version = ''''\<rparr>
   \<and> \<not> MatchString blankPattern s"
proof -
  have "New '''' = Inr \<lparr>version = ''''\<rparr>"
    by code_simp
  moreover have "New '' '' = Inr \<lparr>version = ''''\<rparr>"
    by code_simp
  moreover have "\<not> MatchString blankPattern s"
    by (simp add: MatchString_def search_blankPattern)
  ultimately show ?thesis
    by simp
qed

lemma compareLoop_tie:
  assumes "int i \<le> limit"
    and "li = (if i < length l then l ! i else ''0'')"
    and "ri = (if i < length r then r ! i else ''0'')"
    and "li \<noteq> ri"
    and "extractKind li = KindString"
    and "extractKind ri = KindString"
  shows "compareLoop l r limit i = compareLoop l r limit (Suc i)"
  using assms by (subst compareLoop.simps) (simp add: Let_def)

text \<open>
  C3. Whatever the two versions: when the loop of \<open>Compare\<close> is at a position \<open>i\<close> within
  the limit where the two padded entries \<open>li\<close> and \<open>ri\<close> differ and both hold a letter,
  its result is the result of the loop from position \<open>i + 1\<close>. So 1.0.a and 1.0.b, two
  valid versions whose canonical segments differ in one such position only, compare
  as equal.
\<close>

theorem Compare_alphabetic_tie:
  "(int i \<le> limit
     \<and> li = (if i < length (canonicalSegments v) then canonicalSegments v ! i else ''0'')
     \<and> ri = (if i < length (canonicalSegments w) then canonicalSegments w ! i else ''0'')
     \<and> li \<noteq> ri \<and> extractKind li = KindString \<and> extractKind ri = KindString
    \<longrightarrow> compareLoop (canonicalSegments v) (canonicalSegments w) limit i
        = compareLoop (canonicalSegments v) (canonicalSegments w) limit (Suc i))
   \<and> New ''1.0.a'' = Inr \<lparr>version = ''1.0.a''\<rparr> \<and> New ''1.0.b'' = Inr \<lparr>version = ''1.0.b''\<rparr>
   \<and> canonicalSegments \<lparr>version = ''1.0.a''\<rparr> = [''1'', ''a'']
   \<and> canonicalSegments \<lparr>version = ''1.0.b''\<rparr> = [''1'', ''b'']
   \<and> Compare \<lparr>version = ''1.0.a''\<rparr> \<lparr>version = ''1.0.b''\<rparr> = 0"
proof -
  have "New ''1.0.a'' = Inr \<lparr>version = ''1.0.a''\<rparr> \<and> New ''1.0.b'' = Inr \<lparr>version = ''1.0.b''\<rparr>
     \<and> canonicalSegments \<lparr>version = ''1.0.a''\<rparr> = [''1'', ''a'']
     \<and> canonicalSegments \<lparr>version = ''1.0.b''\<rparr> = [''1'', ''b'']
     \<and> Compare \<lparr>version = ''1.0.a''\<rparr> \<lparr>version = ''1.0.b''\<rparr> = 0"
    by code_simp
  then show ?thesis
    using compareLoop_tie by blast
qed

theorem Compare_alphabetic_tie_witness:
  "extractKind ''a'' = KindString \<and> extractKind ''b'' = KindString
   \<and> compareLoop (canonicalSegments \<lparr>version = ''1.0.a''\<rparr>)
        (canonicalSegments \<lparr>version = ''1.0.b''\<rparr>) 1 1
     = compareLoop (canonicalSegments \<lparr>version = ''1.0.a''\<rparr>)
        (canonicalSegments \<lparr>version = ''1.0.b''\<rparr>) 1 2"
proof -
  have a: "canonicalSegments \<lparr>version = ''1.0.a''\<rparr> = [''1'', ''a'']"
    by code_simp
  have b: "canonicalSegments \<lparr>version = ''1.0.b''\<rparr> = [''1'', ''b'']"
    by code_simp
  have ka: "extractKind ''a'' = KindString"
    by code_simp
  have kb: "extractKind ''b'' = KindString"
    by code_simp
  show ?thesis
    using Compare_alphabetic_tie
      [of 1 1 "''a''" "\<lparr>version = ''1.0.a''\<rparr>" "''b''" "\<lparr>version = ''1.0.b''\<rparr>"]
    by (simp add: a b ka kb)
qed

text \<open>
  C4. \<open>Eql\<close> is equality of the two stored strings, and two versions that are \<open>Eql\<close>
  compare as equal. The converse fails: the versions built from \<open>"1"\<close> and \<open>"1.0"\<close>
  compare as equal and are not \<open>Eql\<close>.
\<close>

theorem Eql_finer_than_Compare:
  "(Eql v w \<longleftrightarrow> version v = version w) \<and> (Eql v w \<longrightarrow> Compare v w = 0)
   \<and> New ''1'' = Inr \<lparr>version = ''1''\<rparr> \<and> New ''1.0'' = Inr \<lparr>version = ''1.0''\<rparr>
   \<and> Compare \<lparr>version = ''1''\<rparr> \<lparr>version = ''1.0''\<rparr> = 0
   \<and> \<not> Eql \<lparr>version = ''1''\<rparr> \<lparr>version = ''1.0''\<rparr>"
proof -
  have "New ''1'' = Inr \<lparr>version = ''1''\<rparr> \<and> New ''1.0'' = Inr \<lparr>version = ''1.0''\<rparr>
     \<and> Compare \<lparr>version = ''1''\<rparr> \<lparr>version = ''1.0''\<rparr> = 0
     \<and> \<not> Eql \<lparr>version = ''1''\<rparr> \<lparr>version = ''1.0''\<rparr>"
    by code_simp
  moreover have "Eql v w \<longrightarrow> Compare v w = 0"
    by (simp add: Eql_def Compare_def Let_def)
  moreover have "Eql v w \<longleftrightarrow> version v = version w"
    by (simp add: Eql_def)
  ultimately show ?thesis
    by blast
qed

theorem Eql_finer_than_Compare_witness:
  "Eql \<lparr>version = ''1.0''\<rparr> \<lparr>version = ''1.0''\<rparr>
   \<and> Compare \<lparr>version = ''1.0''\<rparr> \<lparr>version = ''1.0''\<rparr> = 0"
  using Eql_finer_than_Compare [of "\<lparr>version = ''1.0''\<rparr>" "\<lparr>version = ''1.0''\<rparr>"]
  by (simp add: Eql_def)

text \<open>
  C5. \<open>Bump\<close> should drop every prerelease segment and return a version for each valid
  one. On the valid version 1.a.2.b.3 the truncating loop, which does not stop at the
  first segment with a letter, leaves \<open>1, a, 2\<close>; the last segment is dropped and
  \<open>Atoi\<close> fails on \<open>a\<close>: \<open>Bump\<close> panics.
\<close>

theorem Bump_panics_on_two_letter_segments:
  "New ''1.a.2.b.3'' = Inr \<lparr>version = ''1.a.2.b.3''\<rparr>
   \<and> segments \<lparr>version = ''1.a.2.b.3''\<rparr> = [''1'', ''a'', ''2'', ''b'', ''3'']
   \<and> truncated \<lparr>version = ''1.a.2.b.3''\<rparr> = [''1'', ''a'', ''2'']
   \<and> Bump \<lparr>version = ''1.a.2.b.3''\<rparr> = Inl PanicLastElement"
  by code_simp

text \<open>
  C6. \<open>Release\<close> should keep the segments before the first one with a letter, which has
  no letter left. On the valid prerelease 1.a.2.b.3 it keeps those before the last one
  with a letter and returns 1.a.2, again a prerelease.
\<close>

theorem Release_keeps_letter_segment:
  "New ''1.a.2.b.3'' = Inr \<lparr>version = ''1.a.2.b.3''\<rparr>
   \<and> IsPrerelease \<lparr>version = ''1.a.2.b.3''\<rparr>
   \<and> Release \<lparr>version = ''1.a.2.b.3''\<rparr> = Some \<lparr>version = ''1.a.2''\<rparr>
   \<and> segments \<lparr>version = ''1.a.2''\<rparr> = [''1'', ''a'', ''2'']
   \<and> IsPrerelease \<lparr>version = ''1.a.2''\<rparr>"
  by code_simp

subsection \<open>Requirement\<close>

text \<open>
  C7. A bare version such as 1.3.5 should parse to the operator \<open>=\<close> and that version.
  It matches the pattern of either file, whose operator group is optional, and then
  both \<open>parse\<close> functions return the error that asks for an operator and a version: one
  finds no operator to cut out, the other a single piece after the split.
\<close>

theorem parse_bare_version_fails:
  "MatchString pattern ''1.3.5'' \<and> parse ''1.3.5'' = Inl NotOperatorAndVersion
   \<and> MatchString pattern1 ''1.3.5'' \<and> parse1 ''1.3.5'' = Inl NotOperatorAndVersion"
  by code_simp

lemma New2_prerelease_default: "New2 ''0.a'' = Some \<lparr>version = ''0.a''\<rparr>"
  by code_simp

lemma New2_default: "New2 ''0'' = Some \<lparr>version = ''0''\<rparr>"
  by code_simp

lemma DefaultRequirement1_eq:
  "DefaultRequirement1 = \<lparr>Operator1 = ''>='', Version1 = Some \<lparr>address = 0, target = \<lparr>version = ''0''\<rparr>\<rparr>\<rparr>"
  by (simp add: DefaultRequirement1_def defaultRequirement1_def New2_at_def New2_default)

lemma DefaultPrereleaseRequirement1_eq:
  "DefaultPrereleaseRequirement1
   = \<lparr>Operator1 = ''>='', Version1 = Some \<lparr>address = 1, target = \<lparr>version = ''0.a''\<rparr>\<rparr>\<rparr>"
  by (simp add: DefaultPrereleaseRequirement1_def defaultPrereleaseRequirement1_def New2_at_def
      New2_default New2_prerelease_default)

lemma initialNext_eq: "initialNext = 2"
  by (simp add: initialNext_def New2_at_def New2_default New2_prerelease_default)

lemma splitFrom_not_Nil: "splitFrom cur s sep \<noteq> []"
  by (induction cur s sep rule: splitFrom.induct) auto

lemma Join_Cons: "ps \<noteq> [] \<Longrightarrow> Join (p # ps) sep = p @ sep @ Join ps sep"
  by (cases ps) simp_all

lemma Join_splitFrom: "sep \<noteq> [] \<Longrightarrow> Join (splitFrom cur s sep) sep = cur @ s"
proof (induction cur s sep rule: splitFrom.induct)
  case (1 cur sep)
  then show ?case by simp
next
  case (2 cur c cs sep)
  show ?case
  proof (cases "HasPrefix (c # cs) sep")
    case True
    then have "sep @ drop (length sep) (c # cs) = c # cs"
      by (metis HasPrefix_def append_take_drop_id)
    with 2 True show ?thesis
      by (simp add: Join_Cons splitFrom_not_Nil)
  next
    case False
    with 2 show ?thesis by simp
  qed
qed

lemma Split_default: "Split s '' '' = [''>='', ''0''] \<Longrightarrow> s = ''>= 0''"
proof -
  assume a: "Split s '' '' = [''>='', ''0'']"
  have "Join (splitFrom [] s '' '') '' '' = s"
    using Join_splitFrom [of "'' ''" "[]" s] by simp
  with a show ?thesis
    by (simp add: Split_def)
qed

lemma operatorLoop_result: "operatorLoop ops p \<noteq> [] \<Longrightarrow> operatorLoop ops p = p"
  by (induction ops) (auto split: if_splits)

lemma parse1_at_default: "parse1_at n ''>= 0'' = (Inr DefaultRequirement1, n)"
proof -
  have m: "MatchString pattern1 ''>= 0''" by code_simp
  have s: "Split ''>= 0'' '' '' = [''>='', ''0'']" by code_simp
  have ol: "operatorLoop Ops1 ''>='' = ''>=''" by code_simp
  show ?thesis
    by (simp add: parse1_at_def m s ol)
qed

lemma two_parts: "length parts = 2 \<Longrightarrow> parts = [parts ! 0, parts ! 1]"
  by (cases parts; cases "tl parts") auto

lemma parse1_at_address:
  assumes "parse1_at n s = (Inr sp, n')" and "2 \<le> n"
  shows "(Operator1 sp = ''>='' \<and> map_option address (Version1 sp) = Some 0) \<longleftrightarrow> s = ''>= 0''"
proof
  assume "s = ''>= 0''"
  with assms show "Operator1 sp = ''>='' \<and> map_option address (Version1 sp) = Some 0"
    by (auto simp: parse1_at_default DefaultRequirement1_eq)
next
  assume r: "Operator1 sp = ''>='' \<and> map_option address (Version1 sp) = Some 0"
  let ?parts = "Split s '' ''"
  from assms(1) have len: "length ?parts = 2"
    by (auto simp: parse1_at_def Let_def split: if_splits)
  from assms(1) have nonempty: "operatorLoop Ops1 (?parts ! 0) \<noteq> []"
    by (auto simp: parse1_at_def Let_def split: if_splits)
  have "operatorLoop Ops1 (?parts ! 0) = ''>='' \<and> ?parts ! 1 = ''0''"
  proof (rule ccontr)
    assume not: "\<not> ?thesis"
    show False
    proof (cases "operatorLoop Ops1 (?parts ! 0) = ''>='' \<and> ?parts ! 1 = ''0.a''")
      case True
      with assms(1) len not have "sp = DefaultPrereleaseRequirement1"
        by (auto simp: parse1_at_def Let_def split: if_splits)
      with r show False
        by (simp add: DefaultPrereleaseRequirement1_eq)
    next
      case False
      with assms(1) len not nonempty
      have "Version1 sp = fst (New2_at n (?parts ! 1))"
        by (auto simp: parse1_at_def Let_def split: if_splits prod.splits)
      with r assms(2) show False
        by (auto simp: New2_at_def split: option.splits)
    qed
  qed
  with nonempty have "?parts ! 0 = ''>='' \<and> ?parts ! 1 = ''0''"
    using operatorLoop_result by metis
  with two_parts [OF len] have "?parts = [''>='', ''0'']"
    by simp
  then show "s = ''>= 0''"
    by (rule Split_default)
qed

lemma newLoop1_at_length:
  "newLoop1_at n rs acc = (Inr reqs, n') \<Longrightarrow> length reqs = length acc + length rs"
  by (induction rs arbitrary: n acc) (auto split: prod.splits sum.splits)

lemma HasNone1_iff:
  "HasNone1 r \<longleftrightarrow> length (requirements1 r) = 1 \<and> Operator1 (requirements1 r ! 0) = ''>=''
     \<and> map_option address (Version1 (requirements1 r ! 0)) = Some 0"
  by (auto simp: HasNone1_def samePointer_def DefaultRequirement1_eq)

lemma HasNone1_New:
  assumes "Requirement_New1 n rs = (Inr r, n')" and "2 \<le> n"
  shows "HasNone1 r \<longleftrightarrow> rs = [''>= 0'']"
proof -
  from assms(1) obtain reqs where nl: "newLoop1_at n rs [] = (Inr reqs, n')" and r: "r = \<lparr>requirements1 = reqs\<rparr>"
    by (auto simp: Requirement_New1_def split: prod.splits sum.splits)
  have len: "length reqs = length rs"
    using newLoop1_at_length [OF nl] by simp
  show ?thesis
  proof (cases rs)
    case Nil
    with len r show ?thesis by (simp add: HasNone1_iff)
  next
    case (Cons s ss)
    show ?thesis
    proof (cases ss)
      case Nil
      with Cons nl obtain sp where p: "parse1_at n s = (Inr sp, n')" and "reqs = [sp]"
        by (auto split: prod.splits sum.splits)
      with r Cons Nil parse1_at_address [OF p assms(2)] show ?thesis
        by (simp add: HasNone1_iff)
    next
      case (Cons t ts)
      with \<open>rs = s # ss\<close> len r show ?thesis by (simp add: HasNone1_iff)
    qed
  qed
qed

lemma forget_parse1_at: "map_sum id forget (fst (parse1_at n s)) = parse1 s"
  by (auto simp: parse1_at_def parse1_def Let_def forget_def DefaultRequirement1_eq
      DefaultPrereleaseRequirement1_eq DefaultRequirement_def defaultRequirement_def
      DefaultPrereleaseRequirement_def defaultPrereleaseRequirement_def New2_default
      New2_prerelease_default New2_at_def split: option.splits prod.splits)

text \<open>
  C8, as stated: \<open>HasNone\<close> returns true exactly when the set has one specifier, its
  operator is \<open>>=\<close> and its version compares as equal to 0.a. With the \<open>HasNone\<close> of
  \<open>requirement/requirement.go\<close> the statement is false in both directions: the set
  built from \<open>">= 0"\<close> has none, and its version 0 compares as greater than 0.a; the
  set built from \<open>">= 0.a"\<close> has a version equal to 0.a, and \<open>HasNone\<close> is false.
\<close>

theorem HasNone1_default_counterexample:
  "Requirement_New1 initialNext [''>= 0'']
     = (Inr \<lparr>requirements1 = [\<lparr>Operator1 = ''>='',
             Version1 = Some \<lparr>address = 0, target = \<lparr>version = ''0''\<rparr>\<rparr>\<rparr>]\<rparr>, 2)
   \<and> HasNone1 \<lparr>requirements1 = [\<lparr>Operator1 = ''>='',
             Version1 = Some \<lparr>address = 0, target = \<lparr>version = ''0''\<rparr>\<rparr>\<rparr>]\<rparr>
       \<noteq> (length [\<lparr>Operator1 = ''>='',
               Version1 = Some \<lparr>address = 0, target = \<lparr>version = ''0''\<rparr>\<rparr>\<rparr>] = 1
          \<and> Operator1 \<lparr>Operator1 = ''>='',
               Version1 = Some \<lparr>address = 0, target = \<lparr>version = ''0''\<rparr>\<rparr>\<rparr> = ''>=''
          \<and> Compare \<lparr>version = ''0''\<rparr> \<lparr>version = ''0.a''\<rparr> = 0)
   \<and> Compare \<lparr>version = ''0''\<rparr> \<lparr>version = ''0.a''\<rparr> = 1
   \<and> Requirement_New1 initialNext [''>= 0.a'']
     = (Inr \<lparr>requirements1 = [\<lparr>Operator1 = ''>='',
             Version1 = Some \<lparr>address = 1, target = \<lparr>version = ''0.a''\<rparr>\<rparr>\<rparr>]\<rparr>, 2)
   \<and> HasNone1 \<lparr>requirements1 = [\<lparr>Operator1 = ''>='',
             Version1 = Some \<lparr>address = 1, target = \<lparr>version = ''0.a''\<rparr>\<rparr>\<rparr>]\<rparr>
       \<noteq> (length [\<lparr>Operator1 = ''>='',
               Version1 = Some \<lparr>address = 1, target = \<lparr>version = ''0.a''\<rparr>\<rparr>\<rparr>] = 1
          \<and> Operator1 \<lparr>Operator1 = ''>='',
               Version1 = Some \<lparr>address = 1, target = \<lparr>version = ''0.a''\<rparr>\<rparr>\<rparr> = ''>=''
          \<and> Compare \<lparr>version = ''0.a''\<rparr> \<lparr>version = ''0.a''\<rparr> = 0)"
  by code_simp

text \<open>
  C8, amended: in the file with the operators longest first, \<open>HasNone\<close> returns true
  exactly when the set has one specifier, its operator is \<open>>=\<close> and its version compares
  as equal to 0.a, and it returns a truth value whenever no specifier has a \<open>nil\<close>
  version. In \<open>requirement/requirement.go\<close>, \<open>HasNone\<close> is true exactly when the set has
  one specifier, its operator is \<open>>=\<close> and its \<open>Version\<close> is the pointer that the default
  requirement holds; for a set that \<open>New\<close> has built after the package was initialised,
  that is exactly when it was built from the one string \<open>">= 0"\<close>.
\<close>

theorem HasNone_iff:
  "(HasNone r = Inr True \<longleftrightarrow>
      length (requirements r) = 1 \<and> Operator (requirements r ! 0) = ''>=''
      \<and> (\<exists>v. Version (requirements r ! 0) = Some v \<and> Compare v \<lparr>version = ''0.a''\<rparr> = 0))
   \<and> (list_all (\<lambda>s. Version s \<noteq> None) (requirements r)
        \<longrightarrow> HasNone r = Inr True \<or> HasNone r = Inr False)
   \<and> (HasNone1 r1 \<longleftrightarrow>
        length (requirements1 r1) = 1 \<and> Operator1 (requirements1 r1 ! 0) = ''>=''
        \<and> samePointer (Version1 (requirements1 r1 ! 0)) (Version1 DefaultRequirement1))
   \<and> (initialNext \<le> n \<and> Requirement_New1 n rs = (Inr r2, n')
        \<longrightarrow> (HasNone1 r2 \<longleftrightarrow> rs = [''>= 0'']))"
proof -
  have 1: "HasNone r = Inr True \<longleftrightarrow>
      length (requirements r) = 1 \<and> Operator (requirements r ! 0) = ''>=''
      \<and> (\<exists>v. Version (requirements r ! 0) = Some v \<and> Compare v \<lparr>version = ''0.a''\<rparr> = 0)"
    by (auto simp: HasNone_def ComparePtr_def DefaultRequirement_def defaultRequirement_def
        DefaultPrereleaseRequirement_def defaultPrereleaseRequirement_def
        New2_prerelease_default split: option.splits)
  have 2: "HasNone r = Inr True \<or> HasNone r = Inr False"
    if nonnil: "list_all (\<lambda>s. Version s \<noteq> None) (requirements r)"
  proof (cases "length (requirements r) = 1")
    case True
    then have "requirements r ! 0 \<in> set (requirements r)"
      by simp
    with nonnil obtain v where "Version (requirements r ! 0) = Some v"
      by (auto simp: list_all_iff)
    then show ?thesis
      by (simp add: HasNone_def ComparePtr_def DefaultPrereleaseRequirement_def
          defaultPrereleaseRequirement_def New2_prerelease_default)
  next
    case False
    then show ?thesis
      by (simp add: HasNone_def)
  qed
  have 3: "HasNone1 r1 \<longleftrightarrow>
        length (requirements1 r1) = 1 \<and> Operator1 (requirements1 r1 ! 0) = ''>=''
        \<and> samePointer (Version1 (requirements1 r1 ! 0)) (Version1 DefaultRequirement1)"
    by (auto simp: HasNone1_def DefaultRequirement1_eq)
  have 4: "HasNone1 r2 \<longleftrightarrow> rs = [''>= 0'']"
    if "initialNext \<le> n \<and> Requirement_New1 n rs = (Inr r2, n')"
    using that HasNone1_New [of n rs r2 n'] by (simp add: initialNext_eq)
  from 1 2 3 4 show ?thesis
    by blast
qed

theorem HasNone_iff_witness:
  "list_all (\<lambda>s. Version s \<noteq> None)
     (requirements \<lparr>requirements = [\<lparr>Operator = ''>='', Version = Some \<lparr>version = ''0.a''\<rparr>\<rparr>]\<rparr>)
   \<and> HasNone \<lparr>requirements = [\<lparr>Operator = ''>='', Version = Some \<lparr>version = ''0.a''\<rparr>\<rparr>]\<rparr>
       = Inr True
   \<and> initialNext \<le> 2
   \<and> Requirement_New1 2 [''>= 0'']
       = (Inr \<lparr>requirements1 = [\<lparr>Operator1 = ''>='',
               Version1 = Some \<lparr>address = 0, target = \<lparr>version = ''0''\<rparr>\<rparr>\<rparr>]\<rparr>, 2)
   \<and> HasNone1 \<lparr>requirements1 = [\<lparr>Operator1 = ''>='',
               Version1 = Some \<lparr>address = 0, target = \<lparr>version = ''0''\<rparr>\<rparr>\<rparr>]\<rparr>"
proof -
  have n: "initialNext \<le> 2"
    by (simp add: initialNext_eq)
  have new: "Requirement_New1 2 [''>= 0'']
       = (Inr \<lparr>requirements1 = [\<lparr>Operator1 = ''>='',
               Version1 = Some \<lparr>address = 0, target = \<lparr>version = ''0''\<rparr>\<rparr>\<rparr>]\<rparr>, 2)"
    by code_simp
  show ?thesis
    using n new
      HasNone_iff
        [where r = "\<lparr>requirements = [\<lparr>Operator = ''>='', Version = Some \<lparr>version = ''0.a''\<rparr>\<rparr>]\<rparr>"
           and n = 2 and rs = "[''>= 0'']" and n' = 2
           and ?r2.0 = "\<lparr>requirements1 = [\<lparr>Operator1 = ''>='',
               Version1 = Some \<lparr>address = 0, target = \<lparr>version = ''0''\<rparr>\<rparr>\<rparr>]\<rparr>"]
    by (simp add: Compare_def samePointer_def DefaultRequirement1_eq)
qed

text \<open>
  C9, as stated: a set is specific exactly when it has more than one specifier, or none,
  or its only specifier has an operator other than \<open>>\<close> and \<open><\<close>. The set of the single
  specifier \<open>< 1.0\<close> is specific, so the statement is false there.
\<close>

theorem IsSpecific_less_counterexample:
  "IsSpecific \<lparr>requirements = [\<lparr>Operator = ''<'', Version = Some \<lparr>version = ''1.0''\<rparr>\<rparr>]\<rparr>
   \<noteq> (length [\<lparr>Operator = ''<'', Version = Some \<lparr>version = ''1.0''\<rparr>\<rparr>] > 1
       \<or> [\<lparr>Operator = ''<'', Version = Some \<lparr>version = ''1.0''\<rparr>\<rparr>] = []
       \<or> (Operator \<lparr>Operator = ''<'', Version = Some \<lparr>version = ''1.0''\<rparr>\<rparr> \<noteq> ''>''
           \<and> Operator \<lparr>Operator = ''<'', Version = Some \<lparr>version = ''1.0''\<rparr>\<rparr> \<noteq> ''<''))"
  by (simp add: IsSpecific_def)

text \<open>
  C9, amended: a set is specific exactly when it has more than one specifier, or none,
  or its only specifier has an operator other than \<open>>\<close> and \<open>>=\<close>.
\<close>

theorem IsSpecific_iff:
  "IsSpecific r \<longleftrightarrow>
     length (requirements r) > 1 \<or> requirements r = []
     \<or> (\<exists>s. requirements r = [s] \<and> Operator s \<noteq> ''>'' \<and> Operator s \<noteq> ''>='')"
proof (cases "requirements r")
  case Nil
  then show ?thesis
    by (simp add: IsSpecific_def)
next
  case (Cons s ss)
  then show ?thesis
    by (cases ss) (simp_all add: IsSpecific_def)
qed

theorem IsSpecific_iff_witness:
  "IsSpecific \<lparr>requirements = [\<lparr>Operator = ''<'', Version = Some \<lparr>version = ''1.0''\<rparr>\<rparr>]\<rparr>
   \<and> \<not> IsSpecific \<lparr>requirements = [\<lparr>Operator = ''>='', Version = Some \<lparr>version = ''1.0''\<rparr>\<rparr>]\<rparr>
   \<and> IsSpecific \<lparr>requirements = []\<rparr>"
  using IsSpecific_iff [of "\<lparr>requirements = [\<lparr>Operator = ''<'', Version = Some \<lparr>version = ''1.0''\<rparr>\<rparr>]\<rparr>"]
    IsSpecific_iff [of "\<lparr>requirements = [\<lparr>Operator = ''>='', Version = Some \<lparr>version = ''1.0''\<rparr>\<rparr>]\<rparr>"]
    IsSpecific_iff [of "\<lparr>requirements = []\<rparr>"]
  by simp

lemma concatOuter_empty: "concatOuter p rs [] = Inr (Some [])"
  by (induction rs) simp_all

text \<open>
  C10. On a set without specifiers, \<open>Concat\<close> with any list of strings returns the set
  as it is and never \<open>nil\<close>: the inner loop has nothing to range over, so no string is
  parsed, and the loops give the same whatever parser \<open>p\<close> they are run with. This
  holds for the \<open>Concat\<close> of either file.
\<close>

theorem Concat_empty:
  "requirements r = [] \<Longrightarrow>
     Concat r rs = Inr (Some r) \<and> Concat1 r rs = Inr (Some r)
     \<and> concatOuter p rs (requirements r) = Inr (Some [])"
  by (simp add: Concat_def Concat1_def concatOuter_empty)

theorem Concat_empty_witness:
  "requirements \<lparr>requirements = []\<rparr> = [] \<and> parse ''1.'' = Inl (UnableToParse ''1.'')
   \<and> Concat \<lparr>requirements = []\<rparr> [''1.'', ''> 1''] = Inr (Some \<lparr>requirements = []\<rparr>)
   \<and> Concat1 \<lparr>requirements = []\<rparr> [''1.'', ''> 1''] = Inr (Some \<lparr>requirements = []\<rparr>)"
proof -
  have "parse ''1.'' = Inl (UnableToParse ''1.'')"
    by code_simp
  then show ?thesis
    using Concat_empty [of "\<lparr>requirements = []\<rparr>" "[''1.'', ''> 1'']"] by simp
qed

end
